theory Spec2Isabelle
  imports Complex_Main "HOL-Library.Product_Lexorder" "HOL-Library.Option_ord"
    "HOL-Library.Multiset"
begin

section \<open>ProfitFlow (app.py): a shallow embedding\<close>

text \<open>
  The program is a single Flask module. Its pure helpers (\<open>moeda\<close>,
  \<open>parse_valor_to_centavos\<close>, \<open>parse_percent\<close>, \<open>month_bounds\<close>, \<open>calc_taxas\<close>,
  \<open>custo_para_venda\<close>) are embedded as functions; the request handlers are embedded as
  functions from the submitted form and the database contents to either an error or the
  new database contents. Every Python exception that can escape a function is a value of
  \<open>error\<close>; a handler that raises leaves the database as it was (nothing is committed).

  Python strings are modelled as lists of 8-bit characters, read as the code points
  0 to 255. Python integers are \<open>int\<close>. Python floats are modelled exactly: a finite
  binary64 value is the rational number it denotes.
\<close>

subsection \<open>Exceptions\<close>

datatype error =
    ValueError            \<comment> \<open>builtin ValueError\<close>
  | OverflowError         \<comment> \<open>builtin OverflowError\<close>
  | DecimalOverflow       \<comment> \<open>decimal.Overflow, trapped by the default context\<close>
  | DecimalInvalid        \<comment> \<open>decimal.InvalidOperation, trapped by the default context\<close>
  | BadRequest            \<comment> \<open>\<open>abort(400, ...)\<close>\<close>
  | NotFound              \<comment> \<open>\<open>get_or_404\<close>\<close>

text \<open>Sequencing: the first exception ends the computation.\<close>

definition bind_err :: "error + 'a \<Rightarrow> ('a \<Rightarrow> error + 'b) \<Rightarrow> error + 'b" where
  "bind_err r f = (case r of Inl err \<Rightarrow> Inl err | Inr x \<Rightarrow> f x)"

subsection \<open>String methods of Python used by the program\<close>

definition py_whitespace :: "char list" where
  "py_whitespace = [CHR 0x09, CHR 0x0A, CHR 0x0B, CHR 0x0C, CHR 0x0D,
                    CHR 0x1C, CHR 0x1D, CHR 0x1E, CHR 0x1F, CHR 0x20, CHR 0x85, CHR 0xA0]"

definition py_isspace :: "char \<Rightarrow> bool" where
  "py_isspace c = (c \<in> set py_whitespace)"

text \<open>\<open>s.strip()\<close>\<close>

definition py_strip :: "string \<Rightarrow> string" where
  "py_strip s = rev (dropWhile py_isspace (rev (dropWhile py_isspace s)))"

text \<open>\<open>s.replace(pat, rep)\<close>: occurrences are found left to right and do not overlap.\<close>

fun replace_from :: "string \<Rightarrow> string \<Rightarrow> string \<Rightarrow> string" where
  "replace_from pat rep [] = []"
| "replace_from pat rep (c # cs) =
     (if pat \<noteq> [] \<and> take (length pat) (c # cs) = pat
      then rep @ replace_from pat rep (drop (length pat - 1) cs)
      else c # replace_from pat rep cs)"

definition py_replace :: "string \<Rightarrow> string \<Rightarrow> string \<Rightarrow> string" where
  "py_replace s pat rep =
     (if pat = [] then rep @ concat (map (\<lambda>c. c # rep) s) else replace_from pat rep s)"

text \<open>\<open>s.count(c)\<close> for a one-character argument.\<close>

definition py_count :: "string \<Rightarrow> char \<Rightarrow> nat" where
  "py_count s c = length (filter (\<lambda>x. x = c) s)"

text \<open>\<open>s.split(c)\<close> for a one-character separator: the fields between the separators.\<close>

fun py_split :: "string \<Rightarrow> char \<Rightarrow> string list" where
  "py_split [] sep = [[]]"
| "py_split (c # cs) sep =
     (if c = sep then [] # py_split cs sep
      else (case py_split cs sep of [] \<Rightarrow> [[c]] | f # fs \<Rightarrow> (c # f) # fs))"

definition is_digit :: "char \<Rightarrow> bool" where
  "is_digit c = (c \<in> set ''0123456789'')"

definition digit_val :: "char \<Rightarrow> nat" where
  "digit_val c = length (takeWhile (\<lambda>d. d \<noteq> c) ''0123456789'')"

definition digit_char :: "nat \<Rightarrow> char" where
  "digit_char n = ''0123456789'' ! n"

text \<open>The number written by a string of decimal digits.\<close>

definition read_nat :: "string \<Rightarrow> nat" where
  "read_nat ds = foldl (\<lambda>a c. 10 * a + digit_val c) 0 ds"

text \<open>\<open>str(n)\<close> for \<open>n \<ge> 0\<close>.\<close>

fun str_nat :: "nat \<Rightarrow> string" where
  "str_nat n = (if n < 10 then [digit_char n] else str_nat (n div 10) @ [digit_char (n mod 10)])"

declare str_nat.simps [simp del]

definition ascii_lower :: "char \<Rightarrow> char" where
  "ascii_lower c =
     (case map_of (zip ''ABCDEFGHIJKLMNOPQRSTUVWXYZ'' ''abcdefghijklmnopqrstuvwxyz'') c of
        None \<Rightarrow> c | Some l \<Rightarrow> l)"

text \<open>An optional leading sign: whether it is a minus, and the rest.\<close>

fun split_sign :: "string \<Rightarrow> bool \<times> string" where
  "split_sign [] = (False, [])"
| "split_sign (c # cs) =
     (if c = CHR ''-'' then (True, cs) else if c = CHR ''+'' then (False, cs) else (False, c # cs))"

subsection \<open>Rounding to the nearest integer, ties to even\<close>

definition round_half_even :: "rat \<Rightarrow> int" where
  "round_half_even x =
     (let f = \<lfloor>x\<rfloor>; d = x - of_int f
      in if d < 1 / 2 then f else if 1 / 2 < d then f + 1 else if even f then f else f + 1)"

subsection \<open>The decimal module, as far as \<open>parse_valor_to_centavos\<close> uses it\<close>

text \<open>
  A \<open>Decimal\<close> is a sign (\<open>True\<close> for minus), a coefficient and an exponent, or an
  infinity, or a NaN (\<open>True\<close> for a signalling one).
\<close>

datatype decimal = DFin bool nat int | DInf bool | DNaN bool

text \<open>
  \<open>Decimal(s)\<close>: surrounding whitespace is stripped, underscores are dropped, and the
  rest is a sign followed by a number (digits, an optional fraction, an optional
  exponent, with at least one digit before the exponent), an infinity or a NaN with
  optional payload digits; letters in any case. The conversion is exact. \<open>None\<close> is
  decimal.InvalidOperation (a conversion syntax error).
\<close>

definition dec_exponent :: "string \<Rightarrow> int option" where
  "dec_exponent r =
     (if r = [] then Some 0
      else if ascii_lower (hd r) = CHR ''e'' then
        (let (eneg, ds) = split_sign (tl r)
         in if ds \<noteq> [] \<and> list_all is_digit ds
            then Some (if eneg then - int (read_nat ds) else int (read_nat ds))
            else None)
      else None)"

definition py_Decimal :: "string \<Rightarrow> decimal option" where
  "py_Decimal s =
     (let (neg, body) = split_sign (filter (\<lambda>c. c \<noteq> CHR ''_'') (py_strip s));
          low = map ascii_lower body
      in if low = ''inf'' \<or> low = ''infinity'' then Some (DInf neg)
         else if take 3 low = ''nan'' \<and> list_all is_digit (drop 3 low) then Some (DNaN False)
         else if take 4 low = ''snan'' \<and> list_all is_digit (drop 4 low) then Some (DNaN True)
         else
           (let ip = takeWhile is_digit body;
                r1 = dropWhile is_digit body;
                fp = (if r1 \<noteq> [] \<and> hd r1 = CHR ''.'' then takeWhile is_digit (tl r1) else []);
                r2 = (if r1 \<noteq> [] \<and> hd r1 = CHR ''.'' then dropWhile is_digit (tl r1) else r1)
            in if ip = [] \<and> fp = [] then None
               else (case dec_exponent r2 of
                       None \<Rightarrow> None
                     | Some ex \<Rightarrow> Some (DFin neg (read_nat (ip @ fp)) (ex - int (length fp))))))"

text \<open>
  The default context: precision 28, rounding to nearest with ties to even, exponents
  between -999999 and 999999; Overflow and InvalidOperation raise.
\<close>

definition dec_prec :: int where "dec_prec = 28"
definition dec_Emax :: int where "dec_Emax = 999999"
definition dec_Etiny :: int where "dec_Etiny = - 999999 - 28 + 1"
definition dec_Etop :: int where "dec_Etop = 999999 - 28 + 1"

text \<open>Fitting an exact result into the context (\<open>Decimal._fix\<close>).\<close>

definition dec_fix :: "bool \<Rightarrow> nat \<Rightarrow> int \<Rightarrow> error + decimal" where
  "dec_fix sg c e =
     (if c = 0 then Inr (DFin sg 0 (min (max e dec_Etiny) dec_Emax))
      else
        (let exp_min0 = int (length (str_nat c)) + e - dec_prec
         in if dec_Etop < exp_min0 then Inl DecimalOverflow
            else
              (let exp_min = max exp_min0 dec_Etiny
               in if e < exp_min then
                    (let q = nat (round_half_even (of_nat c / 10 ^ nat (exp_min - e)))
                     in if dec_prec < int (length (str_nat q))
                        then (if dec_Etop < exp_min + 1 then Inl DecimalOverflow
                              else Inr (DFin sg (q div 10) (exp_min + 1)))
                        else Inr (DFin sg q exp_min))
                  else Inr (DFin sg c e))))"

text \<open>\<open>dec * 100\<close>\<close>

fun dec_mul100 :: "decimal \<Rightarrow> error + decimal" where
  "dec_mul100 (DNaN signalling) = (if signalling then Inl DecimalInvalid else Inr (DNaN False))"
| "dec_mul100 (DInf sg) = Inr (DInf sg)"
| "dec_mul100 (DFin sg c e) = dec_fix sg (c * 100) e"

text \<open>\<open>int(dec)\<close>: truncation towards zero.\<close>

fun dec_to_int :: "decimal \<Rightarrow> error + int" where
  "dec_to_int (DNaN signalling) = Inl ValueError"
| "dec_to_int (DInf sg) = Inl OverflowError"
| "dec_to_int (DFin sg c e) =
     Inr ((if sg then - 1 else 1) *
          (if 0 \<le> e then int c * 10 ^ nat e else int (c div 10 ^ nat (- e))))"

subsection \<open>Formatting and parsing money\<close>

text \<open>\<open>f"{reais:,}"\<close>: the decimal digits in groups of three, separated by commas.\<close>

fun group3 :: "string \<Rightarrow> string" where
  "group3 (a # b # c # d # r) = a # b # c # CHR '','' # group3 (d # r)"
| "group3 ds = ds"

definition fmt_thousands :: "nat \<Rightarrow> string" where
  "fmt_thousands n = rev (group3 (rev (str_nat n)))"

text \<open>\<open>f"{c:02d}"\<close>\<close>

definition fmt_02d :: "nat \<Rightarrow> string" where
  "fmt_02d n = (let s = str_nat n in if length s < 2 then CHR ''0'' # s else s)"

definition moeda :: "int \<Rightarrow> string" where
  "moeda centavos =
     (let sign = (if centavos < 0 then ''-'' else '''');
          reais = nat \<bar>centavos\<bar> div 100;
          c = nat \<bar>centavos\<bar> mod 100
      in py_replace (py_replace (py_replace
           (sign @ ''R$ '' @ fmt_thousands reais @ '','' @ fmt_02d c)
           '','' ''X'') ''.'' '','') ''X'' ''.'')"

text \<open>
  The callers pass a string (\<open>request.form.get(...) or '0'\<close>), so \<open>s or ''\<close> is \<open>s\<close>.
  Only the construction of the Decimal is inside the \<open>try\<close>.
\<close>

definition parse_valor_to_centavos :: "string \<Rightarrow> error + int" where
  "parse_valor_to_centavos s =
     (let s1 = py_strip s;
          s2 = py_replace (py_replace s1 ''R$'' '''') '' '' '''';
          s3 = (if py_count s2 (CHR '','') = 1 \<and> 1 \<le> py_count s2 (CHR ''.'')
                then py_replace (py_replace s2 ''.'' '''') '','' ''.''
                else py_replace s2 '','' ''.'');
          dec = (case py_Decimal s3 of None \<Rightarrow> DFin False 0 0 | Some d \<Rightarrow> d)
      in case dec_mul100 dec of Inl err \<Rightarrow> Inl err | Inr p \<Rightarrow> dec_to_int p)"

subsection \<open>Floats\<close>

text \<open>
  A Python float is an IEEE 754 binary64 value: a finite one is modelled by the rational
  number it denotes, the others are the two infinities and NaN. The sign of a zero is
  not kept; no operation of the program observes it.
\<close>

datatype pyfloat = Fin rat | PInf | NInf | NaN

definition pow2 :: "int \<Rightarrow> rat" where
  "pow2 e = (if 0 \<le> e then 2 ^ nat e else 1 / 2 ^ nat (- e))"

text \<open>The number of binary digits of a natural number.\<close>

fun bitlen :: "nat \<Rightarrow> nat" where
  "bitlen n = (if n = 0 then 0 else Suc (bitlen (n div 2)))"

declare bitlen.simps [simp del]

text \<open>For \<open>x > 0\<close>, the exponent \<open>e\<close> with \<open>2\<^sup>e \<le> x < 2\<^sup>e\<^sup>+\<^sup>1\<close>.\<close>

definition ilog2 :: "rat \<Rightarrow> int" where
  "ilog2 x =
     (let (a, b) = quotient_of x;
          d = int (bitlen (nat a)) - int (bitlen (nat b))
      in if pow2 d \<le> x then d else d - 1)"

text \<open>
  Rounding a real result to binary64, to nearest with ties to even: 53 significant bits,
  a spacing of at least \<open>2\<^sup>-\<^sup>1\<^sup>0\<^sup>7\<^sup>4\<close> (the subnormal numbers), and an infinity
  when the rounded magnitude reaches \<open>2\<^sup>1\<^sup>0\<^sup>2\<^sup>4\<close>.
\<close>

definition rnd64 :: "rat \<Rightarrow> pyfloat" where
  "rnd64 x =
     (if x = 0 then Fin 0
      else
        (let q = pow2 (max (ilog2 \<bar>x\<bar> - 52) (- 1074));
             y = of_int (round_half_even (\<bar>x\<bar> / q)) * q
         in if pow2 1024 \<le> y then (if 0 < x then PInf else NInf)
            else Fin (if 0 < x then y else - y)))"

text \<open>\<open>a * b\<close> on floats.\<close>

fun fl_mul :: "pyfloat \<Rightarrow> pyfloat \<Rightarrow> pyfloat" where
  "fl_mul (Fin x) (Fin y) = rnd64 (x * y)"
| "fl_mul NaN b = NaN"
| "fl_mul a NaN = NaN"
| "fl_mul (Fin x) PInf = (if x = 0 then NaN else if 0 < x then PInf else NInf)"
| "fl_mul (Fin x) NInf = (if x = 0 then NaN else if 0 < x then NInf else PInf)"
| "fl_mul PInf (Fin y) = (if y = 0 then NaN else if 0 < y then PInf else NInf)"
| "fl_mul NInf (Fin y) = (if y = 0 then NaN else if 0 < y then NInf else PInf)"
| "fl_mul PInf PInf = PInf"
| "fl_mul PInf NInf = NInf"
| "fl_mul NInf PInf = NInf"
| "fl_mul NInf NInf = PInf"

text \<open>\<open>a / 100.0\<close>\<close>

fun fl_div100 :: "pyfloat \<Rightarrow> pyfloat" where
  "fl_div100 (Fin x) = rnd64 (x / 100)"
| "fl_div100 PInf = PInf"
| "fl_div100 NInf = NInf"
| "fl_div100 NaN = NaN"

text \<open>The conversion of an int operand to float: correctly rounded, OverflowError
  when the integer is too large.\<close>

definition int_to_float :: "int \<Rightarrow> error + pyfloat" where
  "int_to_float n = (case rnd64 (of_int n) of Fin r \<Rightarrow> Inr (Fin r) | _ \<Rightarrow> Inl OverflowError)"

text \<open>\<open>round(x)\<close> with one argument: the nearest integer, ties to even.\<close>

fun py_round :: "pyfloat \<Rightarrow> error + int" where
  "py_round (Fin x) = Inr (round_half_even x)"
| "py_round PInf = Inl OverflowError"
| "py_round NInf = Inl OverflowError"
| "py_round NaN = Inl ValueError"

text \<open>
  \<open>float(s)\<close>: surrounding whitespace is stripped; an underscore may stand between two
  digits; the rest is a sign followed by a decimal number with an optional exponent,
  an infinity or a NaN. The value is correctly rounded. \<open>None\<close> is ValueError.
\<close>

fun underscores_ok :: "char \<Rightarrow> string \<Rightarrow> bool" where
  "underscores_ok prev [] = (prev \<noteq> CHR ''_'')"
| "underscores_ok prev (c # cs) =
     ((if c = CHR ''_'' then is_digit prev else if prev = CHR ''_'' then is_digit c else True)
      \<and> underscores_ok c cs)"

definition py_float :: "string \<Rightarrow> pyfloat option" where
  "py_float s =
     (let t = py_strip s
      in if \<not> underscores_ok (CHR 0x00) t then None
         else
           (let (neg, body) = split_sign (filter (\<lambda>c. c \<noteq> CHR ''_'') t);
                low = map ascii_lower body
            in if low = ''inf'' \<or> low = ''infinity'' then Some (if neg then NInf else PInf)
               else if low = ''nan'' then Some NaN
               else
                 (let ip = takeWhile is_digit body;
                      r1 = dropWhile is_digit body;
                      fp = (if r1 \<noteq> [] \<and> hd r1 = CHR ''.'' then takeWhile is_digit (tl r1) else []);
                      r2 = (if r1 \<noteq> [] \<and> hd r1 = CHR ''.'' then dropWhile is_digit (tl r1) else r1)
                  in if ip = [] \<and> fp = [] then None
                     else (case dec_exponent r2 of
                             None \<Rightarrow> None
                           | Some ex \<Rightarrow>
                               (let v = of_nat (read_nat (ip @ fp)) *
                                        (if 0 \<le> ex - int (length fp)
                                         then 10 ^ nat (ex - int (length fp))
                                         else 1 / 10 ^ nat (int (length fp) - ex))
                                in Some (rnd64 (if neg then - v else v)))))))"

text \<open>\<open>request.form.get(...)\<close> gives \<open>None\<close> for a missing field.\<close>

definition parse_percent :: "string option \<Rightarrow> pyfloat" where
  "parse_percent s =
     (let t = py_replace (py_replace (py_strip (case s of None \<Rightarrow> [] | Some x \<Rightarrow> x))
                ''%'' '''') '','' ''.''
      in case py_float t of None \<Rightarrow> Fin 0 | Some f \<Rightarrow> f)"

subsection \<open>\<open>int(s)\<close> on a string\<close>

text \<open>
  Surrounding whitespace is stripped; then a sign and decimal digits, where an
  underscore may stand between two digits. (The limit that recent interpreters put on
  the number of digits is not modelled.)
\<close>

fun int_digits_ok :: "string \<Rightarrow> bool" where
  "int_digits_ok [] = False"
| "int_digits_ok [c] = is_digit c"
| "int_digits_ok (c # d # r) =
     (is_digit c \<and> (if d = CHR ''_'' then r \<noteq> [] \<and> int_digits_ok r else int_digits_ok (d # r)))"

definition py_int :: "string \<Rightarrow> error + int" where
  "py_int s =
     (let (neg, ds) = split_sign (py_strip s)
      in if int_digits_ok ds
         then Inr ((if neg then - 1 else 1) * int (read_nat (filter (\<lambda>c. c \<noteq> CHR ''_'') ds)))
         else Inl ValueError)"

subsection \<open>Dates and the month of the dashboard\<close>

text \<open>
  A date is year, month and day; dates compare chronologically, which is the
  lexicographic order of the triple. A creation time is a number of microseconds.
\<close>

type_synonym date = "int \<times> int \<times> int"

definition year :: "date \<Rightarrow> int" where "year d = fst d"
definition month :: "date \<Rightarrow> int" where "month d = fst (snd d)"
definition day :: "date \<Rightarrow> int" where "day d = snd (snd d)"


text \<open>\<open>date(y, m, 1)\<close>\<close>

definition first_of_month :: "int \<Rightarrow> int \<Rightarrow> error + date" where
  "first_of_month y m =
     (if 1 \<le> y \<and> y \<le> 9999 \<and> 1 \<le> m \<and> m \<le> 12 then Inr (y, m, 1) else Inl ValueError)"

text \<open>\<open>f"{today.year}-{today.month:02d}"\<close>\<close>

definition ym_of :: "date \<Rightarrow> string" where
  "ym_of today = str_nat (nat (year today)) @ ''-'' @ fmt_02d (nat (month today))"

definition month_bounds :: "date \<Rightarrow> string \<Rightarrow> error + (date \<times> date)" where
  "month_bounds today ym =
     (case py_split (if ym = [] then ym_of today else ym) (CHR ''-'') of
        [ys, ms] \<Rightarrow>
          bind_err (py_int ys) (\<lambda>y.
          bind_err (py_int ms) (\<lambda>m.
          bind_err (first_of_month y m) (\<lambda>start.
          bind_err (if m = 12 then first_of_month (y + 1) 1 else first_of_month y (m + 1)) (\<lambda>end'.
          Inr (start, end')))))
      | _ \<Rightarrow> Inl ValueError)"

subsection \<open>The tables\<close>

text \<open>
  The four tables of the database. The rows of a table are kept in the order of
  insertion. Integer columns are Python integers (the storage engine's 64-bit limit is
  not modelled).
\<close>

record compra =
  c_id :: int
  c_produto :: string
  custo_unitario_cent :: int
  c_quantidade :: int
  c_data :: date
  c_created_at :: int

record venda =
  v_id :: int
  v_produto :: string
  preco_unitario_cent :: int
  v_quantidade :: int
  v_data :: date
  custo_unitario_override_cent :: "int option"
  v_created_at :: int

record boleto =
  b_id :: int
  descricao :: string
  valor_centavos :: int
  vencimento :: "date option"
  status :: string
  b_created_at :: int

record config =
  marketplace_percent :: pyfloat
  imposto_percent :: pyfloat
  taxa_fixa_cent :: int

record db =
  compras_tbl :: "compra list"
  vendas_tbl :: "venda list"
  boletos_tbl :: "boleto list"
  config_row :: "config option"

text \<open>
  What a request sees besides the database: the clock, and the standard library's
  \<open>datetime.strptime(d, '%Y-%m-%d').date()\<close>, with \<open>None\<close> for its ValueError. The date
  parser is a parameter: no property below depends on which strings it accepts.
\<close>

record env =
  today :: date
  utcnow :: int
  strptime_date :: "string \<Rightarrow> date option"

type_synonym form = "string \<rightharpoonup> string"

text \<open>\<open>request.form.get(k) or d\<close>: the default also replaces an empty value.\<close>

definition form_or :: "form \<Rightarrow> string \<Rightarrow> string \<Rightarrow> string" where
  "form_or f k d = (case f k of None \<Rightarrow> d | Some v \<Rightarrow> if v = [] then d else v)"

text \<open>\<open>int(request.form.get('quantidade') or 1)\<close>\<close>

definition quantidade_of_form :: "form \<Rightarrow> error + int" where
  "quantidade_of_form f =
     (case f ''quantidade'' of None \<Rightarrow> Inr 1 | Some v \<Rightarrow> if v = [] then Inr 1 else py_int v)"

text \<open>A new primary key: one more than the largest in the table.\<close>

definition next_id :: "int list \<Rightarrow> int" where
  "next_id ids = fold max ids 0 + 1"

text \<open>\<open>d.isoformat()\<close>\<close>

definition isoformat :: "date \<Rightarrow> string" where
  "isoformat d =
     (let y = str_nat (nat (year d))
      in replicate (4 - length y) (CHR ''0'') @ y @ ''-'' @ fmt_02d (nat (month d)) @ ''-'' @
         fmt_02d (nat (day d)))"

subsection \<open>Queries\<close>

text \<open>
  \<open>order_by(key.desc())\<close>: the rows in descending order of the key. SQL leaves the
  order of rows with equal keys open; here they keep the order of the table.
\<close>

fun insort_desc :: "('a \<Rightarrow> 'k::linorder) \<Rightarrow> 'a \<Rightarrow> 'a list \<Rightarrow> 'a list" where
  "insort_desc key x [] = [x]"
| "insort_desc key x (y # ys) =
     (if key y \<le> key x then x # y # ys else y # insort_desc key x ys)"

definition order_by_desc :: "('a \<Rightarrow> 'k::linorder) \<Rightarrow> 'a list \<Rightarrow> 'a list" where
  "order_by_desc key xs = foldr (insort_desc key) xs []"

text \<open>
  \<open>column.ilike(pattern)\<close>, which the SQLite dialect renders as
  \<open>lower(column) LIKE lower(pattern)\<close>: in the pattern, \<open>%\<close> stands for any sequence of
  characters and \<open>_\<close> for any one character; letters of ASCII match in either case.
\<close>

fun like_match :: "string \<Rightarrow> string \<Rightarrow> bool" where
  "like_match [] [] = True"
| "like_match [] (c # cs) = False"
| "like_match (p # ps) [] = (p = CHR ''%'' \<and> like_match ps [])"
| "like_match (p # ps) (c # cs) =
     (if p = CHR ''%'' then like_match ps (c # cs) \<or> like_match (p # ps) cs
      else (p = CHR ''_'' \<or> ascii_lower p = ascii_lower c) \<and> like_match ps cs)"

definition ilike :: "string \<Rightarrow> string \<Rightarrow> bool" where
  "ilike column pattern = like_match (map ascii_lower pattern) (map ascii_lower column)"

definition compra_key :: "compra \<Rightarrow> date \<times> int" where
  "compra_key c = (c_data c, c_created_at c)"

definition venda_key :: "venda \<Rightarrow> date \<times> int" where
  "venda_key v = (v_data v, v_created_at v)"

definition latest_compra_custo :: "db \<Rightarrow> string \<Rightarrow> int" where
  "latest_compra_custo d produto =
     (case order_by_desc compra_key (filter (\<lambda>c. ilike (c_produto c) produto) (compras_tbl d)) of
        [] \<Rightarrow> 0
      | c # rest \<Rightarrow> custo_unitario_cent c)"

subsection \<open>The profit calculation\<close>

definition default_config :: config where
  "default_config = \<lparr>marketplace_percent = Fin 20, imposto_percent = Fin 8, taxa_fixa_cent = 400\<rparr>"

text \<open>\<open>_get_config\<close> creates and commits the row with the defaults when it is missing.\<close>

definition get_config :: "db \<Rightarrow> config \<times> db" where
  "get_config d =
     (case config_row d of
        Some cfg \<Rightarrow> (cfg, d)
      | None \<Rightarrow> (default_config, d\<lparr>config_row := Some default_config\<rparr>))"

text \<open>\<open>int(round(receita_cent * (percent / 100.0)))\<close>\<close>

definition percent_of :: "int \<Rightarrow> pyfloat \<Rightarrow> error + int" where
  "percent_of receita_cent percent =
     (case int_to_float receita_cent of
        Inl err \<Rightarrow> Inl err
      | Inr r \<Rightarrow> py_round (fl_mul r (fl_div100 percent)))"

text \<open>The body of \<open>calc_taxas\<close> once the configuration is read.\<close>

definition taxas_of :: "config \<Rightarrow> int \<Rightarrow> error + int" where
  "taxas_of cfg receita_cent =
     (case percent_of receita_cent (marketplace_percent cfg) of
        Inl err \<Rightarrow> Inl err
      | Inr mk \<Rightarrow>
          (case percent_of receita_cent (imposto_percent cfg) of
             Inl err \<Rightarrow> Inl err
           | Inr imp \<Rightarrow> Inr (mk + imp)))"

definition calc_taxas :: "db \<Rightarrow> int \<Rightarrow> (error + int) \<times> db" where
  "calc_taxas d receita_cent = (let (cfg, d') = get_config d in (taxas_of cfg receita_cent, d'))"

definition custo_para_venda :: "db \<Rightarrow> venda \<Rightarrow> int" where
  "custo_para_venda d v =
     (case custo_unitario_override_cent v of
        Some c \<Rightarrow> c
      | None \<Rightarrow> latest_compra_custo d (v_produto v))"

subsection \<open>The dashboard\<close>

text \<open>One entry of \<open>linhas\<close>; as in the source, \<open>custo\<close> holds the unit cost.\<close>

record linha =
  l_venda :: venda
  l_preco_unitario :: int
  l_receita :: int
  l_custo :: int
  l_taxas :: int
  l_lucro :: int

record painel =
  linhas :: "linha list"
  tot_receita :: int
  tot_taxas :: int
  tot_custo :: int
  tot_lucro :: int

definition painel_vazio :: painel where
  "painel_vazio = \<lparr>linhas = [], tot_receita = 0, tot_taxas = 0, tot_custo = 0, tot_lucro = 0\<rparr>"

text \<open>The \<open>for v in vendas\<close> loop; an exception of \<open>calc_taxas\<close> ends it.\<close>

fun somar_vendas :: "config \<Rightarrow> venda list \<Rightarrow> db \<Rightarrow> painel \<Rightarrow> (error + painel) \<times> db" where
  "somar_vendas cfg [] d acc = (Inr acc, d)"
| "somar_vendas cfg (v # vs) d acc =
     (let receita = preco_unitario_cent v * v_quantidade v;
          custo_u = custo_para_venda d v;
          custo = custo_u * v_quantidade v;
          (t, d') = calc_taxas d receita
      in case t of
           Inl err \<Rightarrow> (Inl err, d')
         | Inr fees \<Rightarrow>
             (let taxas = fees + taxa_fixa_cent cfg * v_quantidade v;
                  lucro = receita - taxas - custo
              in somar_vendas cfg vs d'
                   \<lparr>linhas = linhas acc @
                      [\<lparr>l_venda = v, l_preco_unitario = preco_unitario_cent v,
                        l_receita = receita, l_custo = custo_u, l_taxas = taxas,
                        l_lucro = lucro\<rparr>],
                    tot_receita = tot_receita acc + receita,
                    tot_taxas = tot_taxas acc + taxas,
                    tot_custo = tot_custo acc + custo,
                    tot_lucro = tot_lucro acc + lucro\<rparr>))"

text \<open>\<open>request.args.get('m') or f"{today.year}-{today.month:02d}"\<close>\<close>

definition ym_of_request :: "env \<Rightarrow> string option \<Rightarrow> string" where
  "ym_of_request e m =
     (case m of None \<Rightarrow> ym_of (today e) | Some s \<Rightarrow> if s = [] then ym_of (today e) else s)"

text \<open>\<open>dashboard\<close>, up to the values handed to the template; \<open>m\<close> is the query parameter.\<close>

definition dashboard :: "env \<Rightarrow> string option \<Rightarrow> db \<Rightarrow> (error + painel) \<times> db" where
  "dashboard e m d =
     (case month_bounds (today e) (ym_of_request e m) of
        Inl err \<Rightarrow> (Inl err, d)
      | Inr (start, end') \<Rightarrow>
          (let vs = order_by_desc venda_key
                      (filter (\<lambda>v. start \<le> v_data v \<and> v_data v < end') (vendas_tbl d));
               (cfg, d') = get_config d
           in somar_vendas cfg vs d' painel_vazio))"


text \<open>An integer nearest to a number, the even one of the two when it is half-way.\<close>

definition nearest_ties_even :: "int \<Rightarrow> rat \<Rightarrow> bool" where
  "nearest_ties_even a x =
     (\<bar>of_int a - x\<bar> < 1 / 2 \<or> (\<bar>of_int a - x\<bar> = 1 / 2 \<and> even a))"

subsection \<open>Purchases\<close>

text \<open>
  The handlers return the entity they wrote and the database after the commit; what
  they render from it is not modelled. An exception leaves the database as it was.
\<close>

definition compras :: "db \<Rightarrow> compra list" where
  "compras d = order_by_desc compra_key (compras_tbl d)"

definition create_compra :: "env \<Rightarrow> form \<Rightarrow> db \<Rightarrow> error + (compra \<times> db)" where
  "create_compra e f d =
     (let prod = py_strip (form_or f ''produto'' '''');
          custo = form_or f ''custo'' ''0''
      in bind_err (quantidade_of_form f) (\<lambda>qtd.
         let ds = form_or f ''data'' (isoformat (today e))
         in if prod = [] then Inl BadRequest
            else bind_err (parse_valor_to_centavos custo) (\<lambda>c_cent.
              let data = (case strptime_date e ds of None \<Rightarrow> today e | Some x \<Rightarrow> x);
                  c = \<lparr>c_id = next_id (map c_id (compras_tbl d)), c_produto = prod,
                       custo_unitario_cent = c_cent, c_quantidade = qtd, c_data = data,
                       c_created_at = utcnow e\<rparr>
              in Inr (c, d\<lparr>compras_tbl := compras_tbl d @ [c]\<rparr>))))"

definition update_compra :: "env \<Rightarrow> int \<Rightarrow> form \<Rightarrow> db \<Rightarrow> error + (compra \<times> db)" where
  "update_compra e i f d =
     (case find (\<lambda>c. c_id c = i) (compras_tbl d) of
        None \<Rightarrow> Inl NotFound
      | Some c \<Rightarrow>
          (let prod = py_strip (form_or f ''produto'' '''')
           in bind_err (parse_valor_to_centavos (form_or f ''custo'' ''0'')) (\<lambda>c_cent.
              bind_err (quantidade_of_form f) (\<lambda>qtd.
              let ds = form_or f ''data'' '''';
                  data = (if ds \<noteq> []
                          then (case strptime_date e ds of None \<Rightarrow> c_data c | Some x \<Rightarrow> x)
                          else c_data c);
                  c' = c\<lparr>c_produto := prod, custo_unitario_cent := c_cent,
                         c_quantidade := qtd, c_data := data\<rparr>
              in Inr (c', d\<lparr>compras_tbl := map (\<lambda>r. if c_id r = i then c' else r) (compras_tbl d)\<rparr>)))))"

subsection \<open>Sales\<close>

text \<open>The listing also reads the configuration, which creates it when missing.\<close>

definition vendas :: "db \<Rightarrow> venda list \<times> db" where
  "vendas d = (order_by_desc venda_key (vendas_tbl d), snd (get_config d))"

text \<open>\<open>parse_valor_to_centavos(custo) if custo else None\<close>\<close>

definition override_of_form :: "string \<Rightarrow> error + int option" where
  "override_of_form custo =
     (if custo \<noteq> [] then bind_err (parse_valor_to_centavos custo) (\<lambda>n. Inr (Some n))
      else Inr None)"

definition create_venda :: "env \<Rightarrow> form \<Rightarrow> db \<Rightarrow> error + (venda \<times> db)" where
  "create_venda e f d =
     (let prod = py_strip (form_or f ''produto'' '''');
          preco = form_or f ''preco'' ''0''
      in bind_err (quantidade_of_form f) (\<lambda>qtd.
         let ds = form_or f ''data'' (isoformat (today e));
             custo = form_or f ''custo'' ''''
         in if prod = [] then Inl BadRequest
            else bind_err (parse_valor_to_centavos preco) (\<lambda>preco_cent.
                 bind_err (override_of_form custo) (\<lambda>custo_cent.
              let data = (case strptime_date e ds of None \<Rightarrow> today e | Some x \<Rightarrow> x);
                  v = \<lparr>v_id = next_id (map v_id (vendas_tbl d)), v_produto = prod,
                       preco_unitario_cent = preco_cent, v_quantidade = qtd, v_data = data,
                       custo_unitario_override_cent = custo_cent, v_created_at = utcnow e\<rparr>
              in Inr (v, d\<lparr>vendas_tbl := vendas_tbl d @ [v]\<rparr>)))))"

definition update_venda :: "env \<Rightarrow> int \<Rightarrow> form \<Rightarrow> db \<Rightarrow> error + (venda \<times> db)" where
  "update_venda e i f d =
     (case find (\<lambda>v. v_id v = i) (vendas_tbl d) of
        None \<Rightarrow> Inl NotFound
      | Some v \<Rightarrow>
          (let prod = py_strip (form_or f ''produto'' '''')
           in bind_err (parse_valor_to_centavos (form_or f ''preco'' ''0'')) (\<lambda>preco_cent.
              bind_err (quantidade_of_form f) (\<lambda>qtd.
              let ds = form_or f ''data'' '''';
                  custo = form_or f ''custo'' ''''
              in bind_err (override_of_form custo) (\<lambda>custo_cent.
                 let data = (if ds \<noteq> []
                             then (case strptime_date e ds of None \<Rightarrow> v_data v | Some x \<Rightarrow> x)
                             else v_data v);
                     v' = v\<lparr>v_produto := prod, preco_unitario_cent := preco_cent,
                            v_quantidade := qtd, custo_unitario_override_cent := custo_cent,
                            v_data := data\<rparr>
                 in Inr (v', d\<lparr>vendas_tbl := map (\<lambda>r. if v_id r = i then v' else r) (vendas_tbl d)\<rparr>))))))"

subsection \<open>Invoices\<close>

definition index :: "db \<Rightarrow> boleto list" where
  "index d = order_by_desc b_created_at (boletos_tbl d)"

definition create_boleto :: "env \<Rightarrow> form \<Rightarrow> db \<Rightarrow> error + (boleto \<times> db)" where
  "create_boleto e f d =
     (let desc = py_strip (form_or f ''descricao'' '''');
          valor = form_or f ''valor'' ''0'';
          venc = form_or f ''vencimento'' '''';
          st = py_strip (form_or f ''status'' ''aberto'')
      in if desc = [] then Inl BadRequest
         else bind_err (parse_valor_to_centavos valor) (\<lambda>cent.
           let venc_date = (if venc \<noteq> [] then strptime_date e venc else None);
               b = \<lparr>b_id = next_id (map b_id (boletos_tbl d)), descricao = desc,
                    valor_centavos = cent, vencimento = venc_date, status = st,
                    b_created_at = utcnow e\<rparr>
           in Inr (b, d\<lparr>boletos_tbl := boletos_tbl d @ [b]\<rparr>)))"

definition update_boleto :: "env \<Rightarrow> int \<Rightarrow> form \<Rightarrow> db \<Rightarrow> error + (boleto \<times> db)" where
  "update_boleto e i f d =
     (case find (\<lambda>b. b_id b = i) (boletos_tbl d) of
        None \<Rightarrow> Inl NotFound
      | Some b \<Rightarrow>
          (let desc = py_strip (form_or f ''descricao'' '''');
               valor = form_or f ''valor'' ''0'';
               venc = form_or f ''vencimento'' '''';
               st = py_strip (form_or f ''status'' ''aberto'')
           in if desc = [] then Inl BadRequest
              else bind_err (parse_valor_to_centavos valor) (\<lambda>cent.
                let b' = b\<lparr>descricao := desc, valor_centavos := cent,
                           vencimento := (if venc \<noteq> [] then strptime_date e venc else None),
                           status := st\<rparr>
                in Inr (b', d\<lparr>boletos_tbl := map (\<lambda>r. if b_id r = i then b' else r) (boletos_tbl d)\<rparr>))))"

subsection \<open>The specification's wording, for comparison\<close>


text \<open>A list in descending order of a key.\<close>

definition descending :: "('a \<Rightarrow> 'k::linorder) \<Rightarrow> 'a list \<Rightarrow> bool" where
  "descending key xs = sorted_wrt (\<lambda>a b. key b \<le> key a) xs"

text \<open>
  The listing order as the specification writes it for invoices: by date (the due
  date, a missing one last) and then by creation time, both descending.
\<close>

definition boleto_key_spec :: "boleto \<Rightarrow> date option \<times> int" where
  "boleto_key_spec b = (vencimento b, b_created_at b)"

subsection \<open>Example data\<close>

definition ex_env :: env where
  "ex_env = \<lparr>today = (2024, 5, 6), utcnow = 1000, strptime_date = (\<lambda>s. None)\<rparr>"

definition ex_compra_a :: compra where
  "ex_compra_a = \<lparr>c_id = 1, c_produto = ''Chaleira'', custo_unitario_cent = 3100,
                   c_quantidade = 10, c_data = (2024, 4, 1), c_created_at = 10\<rparr>"

definition ex_compra_b :: compra where
  "ex_compra_b = \<lparr>c_id = 2, c_produto = ''CHALEIRA'', custo_unitario_cent = 3590,
                   c_quantidade = 5, c_data = (2024, 4, 20), c_created_at = 20\<rparr>"

definition ex_venda :: venda where
  "ex_venda = \<lparr>v_id = 1, v_produto = ''chaleira'', preco_unitario_cent = 9990,
                v_quantidade = 2, v_data = (2024, 5, 3),
                custo_unitario_override_cent = None, v_created_at = 30\<rparr>"

definition ex_boleto_a :: boleto where
  "ex_boleto_a = \<lparr>b_id = 1, descricao = ''Luz'', valor_centavos = 12345,
                   vencimento = Some (2024, 12, 31), status = ''aberto'', b_created_at = 1\<rparr>"

definition ex_boleto_b :: boleto where
  "ex_boleto_b = \<lparr>b_id = 2, descricao = ''Agua'', valor_centavos = 5000,
                   vencimento = Some (2024, 1, 15), status = ''aberto'', b_created_at = 2\<rparr>"

definition ex_db :: db where
  "ex_db = \<lparr>compras_tbl = [ex_compra_a, ex_compra_b], vendas_tbl = [ex_venda],
             boletos_tbl = [ex_boleto_a, ex_boleto_b], config_row = Some default_config\<rparr>"

definition ex_form :: form where
  "ex_form = map_of [(''produto'', ''Bule''), (''descricao'', ''Gas''), (''custo'', ''35,90''),
                     (''preco'', ''99,90''), (''valor'', ''50,00''), (''quantidade'', ''3'')]"

text \<open>The example database with a cost override of 100 on its sale.\<close>

definition ex_db_override :: db where
  "ex_db_override = ex_db\<lparr>vendas_tbl := [ex_venda\<lparr>custo_unitario_override_cent := Some 100\<rparr>]\<rparr>"

text \<open>The dashboard of May 2024 on the example database, and a sale sold at a loss.\<close>

definition ex_linha :: linha where
  "ex_linha = \<lparr>l_venda = ex_venda, l_preco_unitario = 9990, l_receita = 19980,
                l_custo = 3590, l_taxas = 6394, l_lucro = 6406\<rparr>"

definition ex_painel :: painel where
  "ex_painel = \<lparr>linhas = [ex_linha], tot_receita = 19980, tot_taxas = 6394,
                 tot_custo = 7180, tot_lucro = 6406\<rparr>"

definition ex_db_prejuizo :: db where
  "ex_db_prejuizo =
     ex_db\<lparr>vendas_tbl := [ex_venda\<lparr>preco_unitario_cent := 100, v_quantidade := 1,
                                    custo_unitario_override_cent := Some 3590\<rparr>]\<rparr>"

text \<open>A purchase of one product and a sale of another whose name has an underscore.\<close>

definition ex_compra_cabo :: compra where
  "ex_compra_cabo = \<lparr>c_id = 1, c_produto = ''caboXusb'', custo_unitario_cent = 777,
                      c_quantidade = 1, c_data = (2024, 4, 1), c_created_at = 10\<rparr>"

definition ex_venda_cabo :: venda where
  "ex_venda_cabo = \<lparr>v_id = 1, v_produto = ''cabo_usb'', preco_unitario_cent = 1990,
                     v_quantidade = 1, v_data = (2024, 5, 3),
                     custo_unitario_override_cent = None, v_created_at = 30\<rparr>"

definition ex_db_cabo :: db where
  "ex_db_cabo = \<lparr>compras_tbl = [ex_compra_cabo], vendas_tbl = [ex_venda_cabo],
                  boletos_tbl = [], config_row = Some default_config\<rparr>"

section \<open>Properties\<close>

lemmas string_simps =
  py_strip_def py_isspace_def py_whitespace_def py_replace_def py_count_def
  is_digit_def digit_val_def digit_char_def read_nat_def ascii_lower_def

lemmas decimal_simps =
  py_Decimal_def dec_exponent_def dec_fix_def dec_prec_def dec_Emax_def dec_Etiny_def
  dec_Etop_def round_half_even_def

text \<open>
  C6. The monetary parser is meant never to raise: a string that is not a number is
  to give 0. The string \<open>NaN\<close> is accepted by the Decimal constructor, so the fallback
  is not taken, and the conversion to an integer, which is outside the \<open>try\<close>, raises
  ValueError.
\<close>

theorem parse_valor_NaN_raises:
  "parse_valor_to_centavos ''NaN'' = Inl ValueError"
  by (simp add: parse_valor_to_centavos_def string_simps decimal_simps)

text \<open>
  C5. Formatting an amount with \<open>moeda\<close> and parsing the result back is meant to give
  the amount again. The comma that \<open>moeda\<close> writes before the cents is turned into a
  period together with the thousands separators, so from 1000 reais on the string has
  two periods, the Decimal constructor rejects it, and the parser falls back to 0.
\<close>

theorem moeda_parse_loses_100000:
  "moeda 100000 = ''R$ 1.000.00'' \<and> parse_valor_to_centavos (moeda 100000) = Inr 0"
  by (simp add: moeda_def fmt_thousands_def fmt_02d_def str_nat.simps
      parse_valor_to_centavos_def string_simps decimal_simps)

text \<open>
  The amounts are rendered with a decimal period throughout: the default fixed fee of
  400 centavos, which the source's comments write \<open>R$ 4,00\<close>, is rendered \<open>R$ 4.00\<close>.
\<close>

lemma moeda_400: "moeda 400 = ''R$ 4.00''"
  by (simp add: moeda_def fmt_thousands_def fmt_02d_def str_nat.simps string_simps)

subsection \<open>Ordering of query results\<close>

lemma set_insort_desc: "set (insort_desc key x xs) = insert x (set xs)"
  by (induction xs) auto

lemma mset_insort_desc: "mset (insort_desc key x xs) = add_mset x (mset xs)"
  by (induction xs) auto

lemma mset_order_by_desc: "mset (order_by_desc key xs) = mset xs"
  by (induction xs) (auto simp: order_by_desc_def mset_insort_desc)

lemma set_order_by_desc: "set (order_by_desc key xs) = set xs"
  by (metis mset_order_by_desc set_mset_mset)

lemma descending_insort_desc:
  "descending key xs \<Longrightarrow> descending key (insort_desc key x xs)"
  by (induction xs) (auto simp: descending_def set_insort_desc)

lemma descending_order_by_desc: "descending key (order_by_desc key xs)"
proof (induction xs)
  case Nil
  show ?case by (simp add: order_by_desc_def descending_def)
next
  case (Cons x xs)
  then show ?case
    using descending_insort_desc [of key "order_by_desc key xs" x]
    by (simp add: order_by_desc_def)
qed

lemma order_by_desc_head_max:
  assumes "order_by_desc key xs = c # rest" and "c' \<in> set xs"
  shows "key c' \<le> key c"
proof -
  have "descending key (c # rest)"
    using descending_order_by_desc [of key xs] assms(1) by simp
  moreover have "c' \<in> set (c # rest)"
    using assms set_order_by_desc [of key xs] by simp
  ultimately show ?thesis
    by (auto simp: descending_def)
qed

lemma order_by_desc_Nil_iff: "order_by_desc key xs = [] \<longleftrightarrow> xs = []"
  by (metis mset_order_by_desc mset_zero_iff)

text \<open>
  C9. Purchases and sales are listed by date and then creation time, both descending.
  Invoices are listed by creation time descending only: their due date plays no part
  in the order. Each listing holds exactly the rows of its table.
\<close>

theorem listing_orders:
  "descending compra_key (compras d) \<and> mset (compras d) = mset (compras_tbl d) \<and>
   descending venda_key (fst (vendas d)) \<and> mset (fst (vendas d)) = mset (vendas_tbl d) \<and>
   descending b_created_at (index d) \<and> mset (index d) = mset (boletos_tbl d)"
  by (simp add: compras_def vendas_def index_def descending_order_by_desc mset_order_by_desc)

text \<open>
  Two invoices, the one created later falling due earlier: the listing puts the later
  creation first, which is not the descending order of the due dates.
\<close>

theorem index_not_by_date:
  "index ex_db = [ex_boleto_b, ex_boleto_a] \<and> \<not> descending boleto_key_spec (index ex_db)"
  by code_simp

subsection \<open>The unit cost of a sale\<close>

lemma ascii_lower_percent: "ascii_lower c = CHR ''%'' \<longleftrightarrow> c = CHR ''%''"
  by (auto simp: ascii_lower_def split: if_splits)

lemma ascii_lower_underscore: "ascii_lower c = CHR ''_'' \<longleftrightarrow> c = CHR ''_''"
  by (auto simp: ascii_lower_def split: if_splits)

lemma ascii_lower_idem: "ascii_lower (ascii_lower c) = ascii_lower c"
  by (auto simp: ascii_lower_def split: if_splits)

text \<open>A pattern without wildcards matches exactly the strings equal to it up to case.\<close>

lemma like_match_plain:
  "CHR ''%'' \<notin> set p \<Longrightarrow> CHR ''_'' \<notin> set p \<Longrightarrow>
   like_match p s \<longleftrightarrow> map ascii_lower p = map ascii_lower s"
  by (induction p s rule: like_match.induct) auto

lemma ilike_plain:
  assumes "CHR ''%'' \<notin> set pat" and "CHR ''_'' \<notin> set pat"
  shows "ilike col pat \<longleftrightarrow> map ascii_lower col = map ascii_lower pat"
proof -
  have "CHR ''%'' \<notin> set (map ascii_lower pat)"
    using assms(1) ascii_lower_percent by (metis imageE list.set_map)
  moreover have "CHR ''_'' \<notin> set (map ascii_lower pat)"
    using assms(2) ascii_lower_underscore by (metis imageE list.set_map)
  ultimately have "like_match (map ascii_lower pat) (map ascii_lower col) \<longleftrightarrow>
      map ascii_lower (map ascii_lower pat) = map ascii_lower (map ascii_lower col)"
    by (rule like_match_plain)
  then show ?thesis
    by (auto simp: ilike_def ascii_lower_idem o_def)
qed

text \<open>
  What the code computes: an override, also one of 0, is the unit cost; without an
  override it is the unit cost of a purchase that is latest by date and then creation
  time among those whose product the sale's product matches as a LIKE pattern, and 0
  when no purchase matches.
\<close>

lemma custo_para_venda_cases:
  "(\<forall>c. custo_unitario_override_cent v = Some c \<longrightarrow> custo_para_venda d v = c) \<and>
   (custo_unitario_override_cent v = None \<longrightarrow>
      (if \<exists>p \<in> set (compras_tbl d). ilike (c_produto p) (v_produto v)
       then \<exists>p \<in> set (compras_tbl d).
              ilike (c_produto p) (v_produto v) \<and>
              (\<forall>p' \<in> set (compras_tbl d).
                  ilike (c_produto p') (v_produto v) \<longrightarrow> compra_key p' \<le> compra_key p) \<and>
              custo_para_venda d v = custo_unitario_cent p
       else custo_para_venda d v = 0))"
proof (intro conjI allI impI)
  fix c assume "custo_unitario_override_cent v = Some c"
  then show "custo_para_venda d v = c"
    by (simp add: custo_para_venda_def)
next
  assume none: "custo_unitario_override_cent v = None"
  let ?ms = "filter (\<lambda>c. ilike (c_produto c) (v_produto v)) (compras_tbl d)"
  show "if \<exists>p \<in> set (compras_tbl d). ilike (c_produto p) (v_produto v)
       then \<exists>p \<in> set (compras_tbl d).
              ilike (c_produto p) (v_produto v) \<and>
              (\<forall>p' \<in> set (compras_tbl d).
                  ilike (c_produto p') (v_produto v) \<longrightarrow> compra_key p' \<le> compra_key p) \<and>
              custo_para_venda d v = custo_unitario_cent p
       else custo_para_venda d v = 0"
  proof (cases "order_by_desc compra_key ?ms")
    case Nil
    then have "?ms = []"
      by (simp add: order_by_desc_Nil_iff)
    then have "\<not> (\<exists>p \<in> set (compras_tbl d). ilike (c_produto p) (v_produto v))"
      by (auto simp: filter_empty_conv)
    moreover have "custo_para_venda d v = 0"
      using none Nil by (simp add: custo_para_venda_def latest_compra_custo_def)
    ultimately show ?thesis by simp
  next
    case (Cons p rest)
    have "p \<in> set ?ms"
      using Cons set_order_by_desc [of compra_key ?ms] by (metis list.set_intros(1))
    then have p: "p \<in> set (compras_tbl d)" "ilike (c_produto p) (v_produto v)"
      by auto
    have mx: "compra_key p' \<le> compra_key p"
      if "p' \<in> set (compras_tbl d)" "ilike (c_produto p') (v_produto v)" for p'
      using order_by_desc_head_max [OF Cons, of p'] that by simp
    have "custo_para_venda d v = custo_unitario_cent p"
      using none Cons by (simp add: custo_para_venda_def latest_compra_custo_def)
    with p mx show ?thesis by auto
  qed
qed

text \<open>
  C3. Without an override the unit cost is to be that of the most recent purchase of
  the sale's product, the names compared without regard to case, and 0 when there is
  none. The lookup hands the sale's product to \<open>ilike\<close> as it was typed, so an underscore
  or a per cent sign in it is a wildcard: with the one purchase \<open>caboXusb\<close> at 777 in the
  table, a sale of \<open>cabo_usb\<close>, of which there is no purchase, is costed at 777 instead
  of 0; and on the example database a sale of a product named \<open>%\<close> is costed at 3590, the
  cost of the latest purchase of any product.
\<close>

theorem custo_para_venda_cabo_usb:
  "map c_produto (compras_tbl ex_db_cabo) = [''caboXusb''] \<and>
   v_produto ex_venda_cabo = ''cabo_usb'' \<and>
   custo_unitario_override_cent ex_venda_cabo = None \<and>
   custo_para_venda ex_db_cabo ex_venda_cabo = 777 \<and>
   custo_para_venda ex_db (ex_venda\<lparr>v_produto := ''%''\<rparr>) = 3590"
proof -
  have "custo_para_venda ex_db_cabo ex_venda_cabo = 777"
    by code_simp
  moreover have "custo_para_venda ex_db (ex_venda\<lparr>v_produto := ''%''\<rparr>) = 3590"
    by code_simp
  ultimately show ?thesis
    by (simp add: ex_db_cabo_def ex_compra_cabo_def ex_venda_cabo_def)
qed

subsection \<open>What the handlers store\<close>

lemma find_map_replace:
  "find P xs = Some x \<Longrightarrow> P x' \<Longrightarrow> find P (map (\<lambda>r. if P r then x' else r) xs) = Some x'"
  by (induction xs) (auto split: if_splits)

lemma find_Some_holds: "find P xs = Some x \<Longrightarrow> P x"
  by (induction xs) (auto split: if_splits)

lemma replace_mem:
  "find P xs = Some x \<Longrightarrow> x' \<in> set (map (\<lambda>r. if P r then x' else r) xs)"
  by (induction xs) (auto split: if_splits)

lemma bind_err_Inr: "bind_err r f = Inr y \<longleftrightarrow> (\<exists>x. r = Inr x \<and> f x = Inr y)"
  by (cases r) (auto simp: bind_err_def)

lemma override_of_form_Inr:
  "override_of_form s = Inr ov \<longleftrightarrow>
     (if s = [] then ov = None else \<exists>n. parse_valor_to_centavos s = Inr n \<and> ov = Some n)"
  by (auto simp: override_of_form_def bind_err_Inr)

lemma quantidade_of_form_Inr:
  "quantidade_of_form f = Inr q \<longleftrightarrow>
     (case f ''quantidade'' of None \<Rightarrow> q = 1
      | Some s \<Rightarrow> if s = [] then q = 1 else py_int s = Inr q)"
  by (auto simp: quantidade_of_form_def split: option.splits)

lemma form_or_empty_default:
  "form_or f k [] = (case f k of None \<Rightarrow> [] | Some s \<Rightarrow> s)"
  by (auto simp: form_or_def split: option.splits)

text \<open>What a successful call of each handler has read and written.\<close>

lemma create_compra_Inr:
  assumes "create_compra e f d = Inr (c, d')"
  shows "\<exists>c_cent qtd.
           py_strip (form_or f ''produto'' '''') \<noteq> [] \<and>
           parse_valor_to_centavos (form_or f ''custo'' ''0'') = Inr c_cent \<and>
           quantidade_of_form f = Inr qtd \<and>
           c_produto c = py_strip (form_or f ''produto'' '''') \<and>
           custo_unitario_cent c = c_cent \<and> c_quantidade c = qtd \<and>
           d' = d\<lparr>compras_tbl := compras_tbl d @ [c]\<rparr>"
  using assms
  by (auto simp: create_compra_def bind_err_Inr Let_def split: if_splits)

lemma update_compra_Inr:
  assumes "update_compra e i f d = Inr (c', d')"
  shows "\<exists>c c_cent qtd.
           find (\<lambda>c. c_id c = i) (compras_tbl d) = Some c \<and>
           parse_valor_to_centavos (form_or f ''custo'' ''0'') = Inr c_cent \<and>
           quantidade_of_form f = Inr qtd \<and>
           c_id c' = c_id c \<and> c_produto c' = py_strip (form_or f ''produto'' '''') \<and>
           custo_unitario_cent c' = c_cent \<and> c_quantidade c' = qtd \<and>
           d' = d\<lparr>compras_tbl := map (\<lambda>r. if c_id r = i then c' else r) (compras_tbl d)\<rparr>"
  using assms
  by (auto simp: update_compra_def bind_err_Inr Let_def split: option.splits)

lemma create_venda_Inr:
  assumes "create_venda e f d = Inr (v, d')"
  shows "\<exists>preco_cent qtd ov.
           py_strip (form_or f ''produto'' '''') \<noteq> [] \<and>
           parse_valor_to_centavos (form_or f ''preco'' ''0'') = Inr preco_cent \<and>
           quantidade_of_form f = Inr qtd \<and>
           override_of_form (form_or f ''custo'' '''') = Inr ov \<and>
           v_produto v = py_strip (form_or f ''produto'' '''') \<and>
           preco_unitario_cent v = preco_cent \<and> v_quantidade v = qtd \<and>
           custo_unitario_override_cent v = ov \<and>
           d' = d\<lparr>vendas_tbl := vendas_tbl d @ [v]\<rparr>"
  using assms
  by (auto simp: create_venda_def bind_err_Inr Let_def split: if_splits)

lemma update_venda_Inr:
  assumes "update_venda e i f d = Inr (v', d')"
  shows "\<exists>v preco_cent qtd ov.
           find (\<lambda>v. v_id v = i) (vendas_tbl d) = Some v \<and>
           parse_valor_to_centavos (form_or f ''preco'' ''0'') = Inr preco_cent \<and>
           quantidade_of_form f = Inr qtd \<and>
           override_of_form (form_or f ''custo'' '''') = Inr ov \<and>
           v_id v' = v_id v \<and> v_produto v' = py_strip (form_or f ''produto'' '''') \<and>
           preco_unitario_cent v' = preco_cent \<and> v_quantidade v' = qtd \<and>
           custo_unitario_override_cent v' = ov \<and>
           d' = d\<lparr>vendas_tbl := map (\<lambda>r. if v_id r = i then v' else r) (vendas_tbl d)\<rparr>"
  using assms
  by (auto simp: update_venda_def bind_err_Inr Let_def split: option.splits)

text \<open>
  C8. In create and update of purchases and sales, the stored quantity is 1 when the
  quantity field is absent or empty, and otherwise the integer that the submitted text
  denotes: no lower bound is enforced. (Text that denotes no integer makes the request
  fail.)
\<close>

theorem quantidade_as_submitted:
  "(create_compra e f d = Inr (c, d') \<or> update_compra e i f d = Inr (c, d') \<longrightarrow>
      c \<in> set (compras_tbl d') \<and>
      (case f ''quantidade'' of None \<Rightarrow> c_quantidade c = 1
       | Some s \<Rightarrow> if s = [] then c_quantidade c = 1 else py_int s = Inr (c_quantidade c))) \<and>
   (create_venda e f d = Inr (v, d'') \<or> update_venda e i f d = Inr (v, d'') \<longrightarrow>
      v \<in> set (vendas_tbl d'') \<and>
      (case f ''quantidade'' of None \<Rightarrow> v_quantidade v = 1
       | Some s \<Rightarrow> if s = [] then v_quantidade v = 1 else py_int s = Inr (v_quantidade v)))"
proof (intro conjI impI)
  assume h: "create_compra e f d = Inr (c, d') \<or> update_compra e i f d = Inr (c, d')"
  then have q: "quantidade_of_form f = Inr (c_quantidade c)"
    using create_compra_Inr [of e f d c d'] update_compra_Inr [of e i f d c d'] by auto
  from h show "c \<in> set (compras_tbl d')"
  proof
    assume "create_compra e f d = Inr (c, d')"
    then show ?thesis using create_compra_Inr [of e f d c d'] by auto
  next
    assume "update_compra e i f d = Inr (c, d')"
    then obtain c0 where "find (\<lambda>c. c_id c = i) (compras_tbl d) = Some c0"
      and "d' = d\<lparr>compras_tbl := map (\<lambda>r. if c_id r = i then c else r) (compras_tbl d)\<rparr>"
      using update_compra_Inr [of e i f d c d'] by auto
    then show ?thesis
      using replace_mem [of "\<lambda>c. c_id c = i" "compras_tbl d" c0 c] by simp
  qed
  from q show "case f ''quantidade'' of None \<Rightarrow> c_quantidade c = 1
       | Some s \<Rightarrow> if s = [] then c_quantidade c = 1 else py_int s = Inr (c_quantidade c)"
    by (simp add: quantidade_of_form_Inr)
next
  assume h: "create_venda e f d = Inr (v, d'') \<or> update_venda e i f d = Inr (v, d'')"
  then have q: "quantidade_of_form f = Inr (v_quantidade v)"
    using create_venda_Inr [of e f d v d''] update_venda_Inr [of e i f d v d''] by auto
  from h show "v \<in> set (vendas_tbl d'')"
  proof
    assume "create_venda e f d = Inr (v, d'')"
    then show ?thesis using create_venda_Inr [of e f d v d''] by auto
  next
    assume "update_venda e i f d = Inr (v, d'')"
    then obtain v0 where "find (\<lambda>v. v_id v = i) (vendas_tbl d) = Some v0"
      and "d'' = d\<lparr>vendas_tbl := map (\<lambda>r. if v_id r = i then v else r) (vendas_tbl d)\<rparr>"
      using update_venda_Inr [of e i f d v d''] by auto
    then show ?thesis
      using replace_mem [of "\<lambda>v. v_id v = i" "vendas_tbl d" v0 v] by simp
  qed
  from q show "case f ''quantidade'' of None \<Rightarrow> v_quantidade v = 1
       | Some s \<Rightarrow> if s = [] then v_quantidade v = 1 else py_int s = Inr (v_quantidade v)"
    by (simp add: quantidade_of_form_Inr)
qed

text \<open>
  C10. After a successful update of a sale, the stored row has no cost override when
  the cost field is absent or empty, and otherwise the override is the parsed value of
  the field. Two successful updates with the same form, of whatever sales in whatever
  databases, therefore leave the same override: the previous one plays no part.
\<close>

theorem update_venda_override:
  "(update_venda e i f d = Inr (v', d') \<longrightarrow>
      find (\<lambda>v. v_id v = i) (vendas_tbl d') = Some v' \<and>
      (case f ''custo'' of
         None \<Rightarrow> custo_unitario_override_cent v' = None
       | Some s \<Rightarrow>
           if s = [] then custo_unitario_override_cent v' = None
           else \<exists>n. parse_valor_to_centavos s = Inr n \<and>
                    custo_unitario_override_cent v' = Some n)) \<and>
   (update_venda e i f d = Inr (v', d') \<and> update_venda e2 i2 f d2 = Inr (v2, d2') \<longrightarrow>
      custo_unitario_override_cent v' = custo_unitario_override_cent v2)"
proof (intro conjI impI)
  assume h: "update_venda e i f d = Inr (v', d')"
  then obtain v0 where f0: "find (\<lambda>v. v_id v = i) (vendas_tbl d) = Some v0"
    and id: "v_id v' = v_id v0"
    and ov: "override_of_form (form_or f ''custo'' '''') = Inr (custo_unitario_override_cent v')"
    and d': "d' = d\<lparr>vendas_tbl := map (\<lambda>r. if v_id r = i then v' else r) (vendas_tbl d)\<rparr>"
    using update_venda_Inr [of e i f d v' d'] by auto
  have "v_id v' = i"
    using find_Some_holds [OF f0] id by simp
  then show "find (\<lambda>v. v_id v = i) (vendas_tbl d') = Some v'"
    using find_map_replace [of "\<lambda>v. v_id v = i" "vendas_tbl d" v0 v'] f0 d' by simp
  from ov show "case f ''custo'' of
         None \<Rightarrow> custo_unitario_override_cent v' = None
       | Some s \<Rightarrow>
           if s = [] then custo_unitario_override_cent v' = None
           else \<exists>n. parse_valor_to_centavos s = Inr n \<and>
                    custo_unitario_override_cent v' = Some n"
    by (auto simp: override_of_form_Inr form_or_empty_default split: option.splits if_splits)
next
  assume "update_venda e i f d = Inr (v', d') \<and> update_venda e2 i2 f d2 = Inr (v2, d2')"
  then have "override_of_form (form_or f ''custo'' '''') = Inr (custo_unitario_override_cent v')"
    and "override_of_form (form_or f ''custo'' '''') = Inr (custo_unitario_override_cent v2)"
    using update_venda_Inr [of e i f d v' d'] update_venda_Inr [of e2 i2 f d2 v2 d2'] by auto
  then show "custo_unitario_override_cent v' = custo_unitario_override_cent v2"
    by simp
qed

subsection \<open>The handlers on the example data\<close>

lemmas parse_simps =
  parse_valor_to_centavos_def string_simps decimal_simps str_nat.simps

lemma parse_valor_35_90: "parse_valor_to_centavos ''35,90'' = Inr 3590"
  by (simp add: parse_simps)

lemma parse_valor_99_90: "parse_valor_to_centavos ''99,90'' = Inr 9990"
  by (simp add: parse_simps)

lemma parse_valor_50_00: "parse_valor_to_centavos ''50,00'' = Inr 5000"
  by (simp add: parse_simps)

lemma py_int_examples:
  "py_int ''3'' = Inr 3" "py_int ''0'' = Inr 0" "py_int ''-4'' = Inr (- 4)"
  by (simp_all add: py_int_def string_simps)

lemmas handler_simps =
  form_or_def bind_err_def quantidade_of_form_def override_of_form_def
  ex_form_def ex_db_def ex_env_def ex_compra_a_def ex_compra_b_def ex_venda_def
  ex_boleto_a_def ex_boleto_b_def next_id_def
  parse_valor_35_90 parse_valor_99_90 parse_valor_50_00 py_int_examples
  py_strip_def py_isspace_def py_whitespace_def Let_def

text \<open>
  C7. An update is meant to validate like a create: an empty product or description is
  to be refused and the entity left as it was. The update of an invoice does so, as the
  creates do; the updates of a purchase and of a sale have no such check and store the
  empty product.
\<close>

theorem update_stores_empty_product:
  "map_sum id (\<lambda>(c, d'). map c_produto (compras_tbl d'))
     (update_compra ex_env 1 (ex_form(''produto'' \<mapsto> ''   '')) ex_db) = Inr ['''', ''CHALEIRA''] \<and>
   map_sum id (\<lambda>(v, d'). map v_produto (vendas_tbl d'))
     (update_venda ex_env 1 (ex_form(''produto'' \<mapsto> '''')) ex_db) = Inr [''''] \<and>
   update_boleto ex_env 1 (ex_form(''descricao'' \<mapsto> ''   '')) ex_db = Inl BadRequest \<and>
   create_compra ex_env (ex_form(''produto'' \<mapsto> ''   '')) ex_db = Inl BadRequest \<and>
   create_venda ex_env (ex_form(''produto'' \<mapsto> '''')) ex_db = Inl BadRequest"
  by (simp add: update_compra_def update_venda_def update_boleto_def create_compra_def
      create_venda_def handler_simps)

text \<open>A purchase submitted with the quantity \<open>0\<close> is stored with the quantity 0.\<close>

theorem create_compra_stores_zero:
  "map_sum id (\<lambda>(c, d'). map c_quantidade (compras_tbl d'))
     (create_compra ex_env (ex_form(''quantidade'' \<mapsto> ''0'')) ex_db) = Inr [10, 5, 0]"
  by (simp add: create_compra_def handler_simps)

text \<open>
  On the example data: a quantity of 3 is stored as 3, a missing one as 1, and one of
  -4 as -4.
\<close>

theorem quantidade_as_submitted_witness:
  "(\<exists>c d'. create_compra ex_env ex_form ex_db = Inr (c, d') \<and>
            c \<in> set (compras_tbl d') \<and> c_quantidade c = 3) \<and>
   (\<exists>v d'. update_venda ex_env 1 (ex_form(''quantidade'' := None)) ex_db = Inr (v, d') \<and>
            v \<in> set (vendas_tbl d') \<and> v_quantidade v = 1) \<and>
   (\<exists>v d'. update_venda ex_env 1 (ex_form(''quantidade'' \<mapsto> ''-4'')) ex_db = Inr (v, d') \<and>
            v \<in> set (vendas_tbl d') \<and> v_quantidade v = - 4)"
proof -
  obtain c d1 where c: "create_compra ex_env ex_form ex_db = Inr (c, d1)"
    by (simp add: create_compra_def handler_simps)
  obtain v d2 where v: "update_venda ex_env 1 (ex_form(''quantidade'' := None)) ex_db = Inr (v, d2)"
    by (simp add: update_venda_def handler_simps)
  obtain w d3 where w: "update_venda ex_env 1 (ex_form(''quantidade'' \<mapsto> ''-4'')) ex_db = Inr (w, d3)"
    by (simp add: update_venda_def handler_simps)
  have fc: "ex_form ''quantidade'' = Some ''3''"
    by (simp add: ex_form_def)
  have "c \<in> set (compras_tbl d1) \<and> c_quantidade c = 3"
    using quantidade_as_submitted [of ex_env ex_form ex_db c d1 1] c fc py_int_examples(1)
    by simp
  moreover have "v \<in> set (vendas_tbl d2) \<and> v_quantidade v = 1"
    using quantidade_as_submitted [of ex_env "ex_form(''quantidade'' := None)" ex_db _ _ 1 v d2] v
    by simp
  moreover have "w \<in> set (vendas_tbl d3) \<and> v_quantidade w = - 4"
    using quantidade_as_submitted [of ex_env "ex_form(''quantidade'' \<mapsto> ''-4'')" ex_db _ _ 1 w d3] w
      py_int_examples(3)
    by simp
  ultimately show ?thesis
    using c v w by blast
qed

text \<open>
  On a sale whose override was 100: an absent and an empty cost field both clear the
  override, and the field \<open>35,90\<close> sets it to 3590.
\<close>

theorem update_venda_override_witness:
  "(\<exists>v d'. update_venda ex_env 1 (ex_form(''custo'' := None)) ex_db_override = Inr (v, d') \<and>
            find (\<lambda>v. v_id v = 1) (vendas_tbl d') = Some v \<and>
            custo_unitario_override_cent v = None) \<and>
   (\<exists>v d'. update_venda ex_env 1 (ex_form(''custo'' \<mapsto> '''')) ex_db_override = Inr (v, d') \<and>
            custo_unitario_override_cent v = None) \<and>
   (\<exists>v d'. update_venda ex_env 1 ex_form ex_db_override = Inr (v, d') \<and>
            custo_unitario_override_cent v = Some 3590)"
proof -
  obtain v1 d1 where a: "update_venda ex_env 1 (ex_form(''custo'' := None)) ex_db_override = Inr (v1, d1)"
    by (simp add: update_venda_def ex_db_override_def handler_simps)
  obtain v2 d2 where b: "update_venda ex_env 1 (ex_form(''custo'' \<mapsto> '''')) ex_db_override = Inr (v2, d2)"
    by (simp add: update_venda_def ex_db_override_def handler_simps)
  obtain v3 d3 where c: "update_venda ex_env 1 ex_form ex_db_override = Inr (v3, d3)"
    by (simp add: update_venda_def ex_db_override_def handler_simps)
  have fc: "ex_form ''custo'' = Some ''35,90''"
    by (simp add: ex_form_def)
  have "find (\<lambda>v. v_id v = 1) (vendas_tbl d1) = Some v1 \<and> custo_unitario_override_cent v1 = None"
    using update_venda_override [of ex_env 1 "ex_form(''custo'' := None)" ex_db_override v1 d1] a
    by simp
  moreover have "custo_unitario_override_cent v2 = None"
    using update_venda_override [of ex_env 1 "ex_form(''custo'' \<mapsto> '''')" ex_db_override v2 d2] b
    by simp
  moreover have "custo_unitario_override_cent v3 = Some 3590"
    using update_venda_override [of ex_env 1 ex_form ex_db_override v3 d3] c fc parse_valor_35_90
    by simp
  ultimately show ?thesis
    using a b c by blast
qed

subsection \<open>Binary64 rounding\<close>

lemma pow2_powi: "pow2 e = 2 powi e"
  by (simp add: pow2_def power_int_def inverse_eq_divide power_one_over)



lemma pow2_diff: "pow2 (a - b) = pow2 a / pow2 b"
  by (simp add: pow2_powi power_int_diff)

lemma pow2_less_iff [simp]: "pow2 a < pow2 b \<longleftrightarrow> a < b"
proof
  assume "pow2 a < pow2 b"
  show "a < b"
  proof (rule ccontr)
    assume "\<not> a < b"
    then have "b \<le> a" by simp
    then have "pow2 b \<le> pow2 a"
      unfolding pow2_powi by (intro power_int_increasing) simp_all
    with \<open>pow2 a < pow2 b\<close> show False by simp
  qed
next
  assume "a < b"
  then show "pow2 a < pow2 b"
    unfolding pow2_powi by (intro power_int_strict_increasing) simp_all
qed

lemma pow2_le_iff [simp]: "pow2 a \<le> pow2 b \<longleftrightarrow> a \<le> b"
  using pow2_less_iff [of b a] by (auto simp: not_less [symmetric] simp del: pow2_less_iff)

lemma pow2_nat: "pow2 (int n) = 2 ^ n"
  by (simp add: pow2_def)


lemma bitlen_bounds:
  "0 < n \<Longrightarrow> 2 ^ (bitlen n - 1) \<le> n \<and> n < 2 ^ bitlen n"
proof (induction n rule: bitlen.induct)
  case (1 n)
  show ?case
  proof (cases "n div 2 = 0")
    case True
    with "1.prems" have "n = 1" by presburger
    then show ?thesis by (simp add: bitlen.simps)
  next
    case False
    then have pos: "0 < n div 2" by simp
    have IH: "2 ^ (bitlen (n div 2) - 1) \<le> n div 2 \<and> n div 2 < 2 ^ bitlen (n div 2)"
      using "1.IH" "1.prems" pos by simp
    have bl: "bitlen n = Suc (bitlen (n div 2))"
      using "1.prems" by (subst bitlen.simps) simp
    have b1: "0 < bitlen (n div 2)"
      using pos by (subst bitlen.simps) simp
    then obtain k where k: "bitlen (n div 2) = Suc k"
      by (cases "bitlen (n div 2)") auto
    from IH k have "2 * 2 ^ k \<le> n" "n < 2 * 2 ^ Suc k"
      by simp_all presburger+
    then show ?thesis
      by (simp add: bl k)
  qed
qed

lemma ilog2_bounds:
  assumes "0 < x"
  shows "pow2 (ilog2 x) \<le> x \<and> x < pow2 (ilog2 x + 1)"
proof -
  obtain a b where q: "quotient_of x = (a, b)" by (cases "quotient_of x")
  have b: "0 < b" using quotient_of_denom_pos [OF q] .
  have x: "x = of_int a / of_int b" using quotient_of_div [OF q] .
  have a: "0 < a" using assms b x by (simp add: zero_less_divide_iff)
  define la lb where "la = bitlen (nat a)" and "lb = bitlen (nat b)"
  have A: "2 ^ (la - 1) \<le> nat a" "nat a < 2 ^ la"
    using bitlen_bounds [of "nat a"] a by (simp_all add: la_def)
  have B: "2 ^ (lb - 1) \<le> nat b" "nat b < 2 ^ lb"
    using bitlen_bounds [of "nat b"] b by (simp_all add: lb_def)
  have la1: "1 \<le> la" using A(2) a by (cases la) auto
  have lb1: "1 \<le> lb" using B(2) b by (cases lb) auto
  have ra: "(2::rat) ^ (la - 1) \<le> of_int a" "of_int a < (2::rat) ^ la"
  proof -
    have "of_nat (2 ^ (la - 1)) \<le> (of_nat (nat a) :: rat)" using A(1) by (simp only: of_nat_le_iff)
    then show "(2::rat) ^ (la - 1) \<le> of_int a" using a by simp
    have "(of_nat (nat a) :: rat) < of_nat (2 ^ la)" using A(2) by (simp only: of_nat_less_iff)
    then show "of_int a < (2::rat) ^ la" using a by simp
  qed
  have rb: "(2::rat) ^ (lb - 1) \<le> of_int b" "of_int b < (2::rat) ^ lb"
  proof -
    have "of_nat (2 ^ (lb - 1)) \<le> (of_nat (nat b) :: rat)" using B(1) by (simp only: of_nat_le_iff)
    then show "(2::rat) ^ (lb - 1) \<le> of_int b" using b by simp
    have "(of_nat (nat b) :: rat) < of_nat (2 ^ lb)" using B(2) by (simp only: of_nat_less_iff)
    then show "of_int b < (2::rat) ^ lb" using b by simp
  qed
  define d where "d = int la - int lb"
  have lo: "pow2 (d - 1) \<le> x"
  proof -
    have "pow2 (d - 1) = pow2 (int (la - 1)) / pow2 (int lb)"
      using la1 by (simp add: d_def pow2_diff [symmetric] of_nat_diff algebra_simps)
    also have "\<dots> = 2 ^ (la - 1) / 2 ^ lb" by (simp only: pow2_nat)
    also have "\<dots> \<le> of_int a / of_int b"
      using ra(1) rb(2) a b by (intro frac_le) simp_all
    finally show ?thesis by (simp add: x)
  qed
  have hi: "x < pow2 (d + 1)"
  proof -
    have "x = of_int a / of_int b" by (rule x)
    also have "\<dots> < 2 ^ la / 2 ^ (lb - 1)"
      using ra(2) rb(1) a b by (intro frac_less) simp_all
    also have "\<dots> = pow2 (int la) / pow2 (int (lb - 1))" by (simp only: pow2_nat)
    also have "\<dots> = pow2 (d + 1)"
      using lb1 by (simp add: d_def pow2_diff [symmetric] of_nat_diff algebra_simps)
    finally show ?thesis .
  qed
  have il: "ilog2 x = (if pow2 d \<le> x then d else d - 1)"
    by (simp add: ilog2_def q la_def lb_def d_def Let_def)
  show ?thesis
  proof (cases "pow2 d \<le> x")
    case True
    with il hi show ?thesis by simp
  next
    case False
    with il lo show ?thesis by simp
  qed
qed

lemma ilog2_eqI:
  assumes "0 < x" and "pow2 k \<le> x" and "x < pow2 (k + 1)"
  shows "ilog2 x = k"
proof -
  let ?j = "ilog2 x"
  have j: "pow2 ?j \<le> x" "x < pow2 (?j + 1)"
    using ilog2_bounds [OF assms(1)] by simp_all
  have "pow2 k < pow2 (?j + 1)" using assms(2) j(2) by (rule le_less_trans)
  moreover have "pow2 ?j < pow2 (k + 1)" using j(1) assms(3) by (rule le_less_trans)
  ultimately show ?thesis by simp
qed

lemma nearest_ties_even_cases:
  assumes "0 \<le> d" and "d < 1"
  shows "nearest_ties_even
           (if d < 1 / 2 then f else if 1 / 2 < d then f + 1 else if even f then f else f + 1)
           (of_int f + d)"
  using assms by (auto simp: nearest_ties_even_def)

lemma nearest_round_half_even: "nearest_ties_even (round_half_even x) x"
proof -
  define f where "f = \<lfloor>x\<rfloor>"
  define d where "d = x - of_int f"
  have d: "0 \<le> d" "d < 1" unfolding d_def f_def by linarith+
  have x: "of_int f + d = x" by (simp add: d_def)
  have r: "round_half_even x =
      (if d < 1 / 2 then f else if 1 / 2 < d then f + 1 else if even f then f else f + 1)"
    by (simp add: round_half_even_def Let_def f_def d_def)
  show ?thesis
    using nearest_ties_even_cases [OF d, of f] by (simp only: r x)
qed

lemma nearest_ties_even_unique:
  assumes "nearest_ties_even a x" and "nearest_ties_even b x"
  shows "a = b"
proof (rule ccontr)
  assume ne: "a \<noteq> b"
  have ab: "\<bar>of_int a - x\<bar> \<le> 1 / 2" "\<bar>of_int b - x\<bar> \<le> 1 / 2"
    using assms by (auto simp: nearest_ties_even_def)
  then have "\<bar>(of_int a :: rat) - of_int b\<bar> \<le> 1" by linarith
  then have "\<bar>a - b\<bar> \<le> 1"
    by (metis of_int_1 of_int_abs of_int_diff of_int_le_iff)
  with ne have d: "\<bar>a - b\<bar> = 1" by linarith
  then have "\<bar>(of_int a :: rat) - of_int b\<bar> = 1"
    by (metis of_int_1 of_int_abs of_int_diff)
  with ab have "\<bar>of_int a - x\<bar> = 1 / 2" "\<bar>of_int b - x\<bar> = 1 / 2" by linarith+
  with assms have "even a" "even b" by (auto simp: nearest_ties_even_def)
  with d show False by presburger
qed

lemma round_half_even_eq_iff: "round_half_even x = a \<longleftrightarrow> nearest_ties_even a x"
  using nearest_round_half_even [of x] nearest_ties_even_unique [of a x "round_half_even x"]
  by auto

lemma rnd64_pos_eqI:
  assumes "0 < x" and "pow2 k \<le> x" and "x < pow2 (k + 1)"
    and "q = pow2 (max (k - 52) (- 1074))"
    and "nearest_ties_even n (x / q)"
    and "of_int n * q < pow2 1024"
  shows "rnd64 x = Fin (of_int n * q)"
proof -
  have "ilog2 \<bar>x\<bar> = k" using assms(1-3) by (intro ilog2_eqI) simp_all
  moreover have "round_half_even (x / q) = n"
    using assms(5) by (simp add: round_half_even_eq_iff)
  ultimately show ?thesis
    using assms(1,4,6) by (simp add: rnd64_def Let_def)
qed










text \<open>
  The percentages of the examples, each computed as the program does: the revenue
  converted to a float, the percentage divided by 100.0, the product, and its rounding
  to an integer.
\<close>

lemma percent_of_19980_20: "percent_of 19980 (Fin 20) = Inr 3996"
proof -
  have a: "rnd64 19980 = Fin 19980"
    using rnd64_pos_eqI [of "19980" "14" "pow2 (- 38)" 5492060580741120]
    by (simp add: pow2_def nearest_ties_even_def)
  have b: "rnd64 (1 / 5) = Fin (3602879701896397 / 18014398509481984)"
    using rnd64_pos_eqI [of "1 / 5" "- 3" "pow2 (- 55)" 7205759403792794]
    by (simp add: pow2_def nearest_ties_even_def)
  have c: "rnd64 (17996384110972503015 / 4503599627370496) = Fin 3996"
    using rnd64_pos_eqI [of "17996384110972503015 / 4503599627370496" "11" "pow2 (- 41)" 8787296929185792]
    by (simp add: pow2_def nearest_ties_even_def)
  have d: "round_half_even 3996 = 3996"
    by (simp add: round_half_even_eq_iff nearest_ties_even_def)
  show ?thesis
    by (simp add: percent_of_def int_to_float_def a b c d)
qed

lemma percent_of_19980_8: "percent_of 19980 (Fin 8) = Inr 1598"
proof -
  have a: "rnd64 19980 = Fin 19980"
    using rnd64_pos_eqI [of "19980" "14" "pow2 (- 38)" 5492060580741120]
    by (simp add: pow2_def nearest_ties_even_def)
  have b: "rnd64 (2 / 25) = Fin (5764607523034235 / 72057594037927936)"
    using rnd64_pos_eqI [of "2 / 25" "- 4" "pow2 (- 56)" 5764607523034235]
    by (simp add: pow2_def nearest_ties_even_def)
  have c: "rnd64 (28794214577556003825 / 18014398509481984) = Fin (3514918771674317 / 2199023255552)"
    using rnd64_pos_eqI [of "28794214577556003825 / 18014398509481984" "10" "pow2 (- 42)" 7029837543348634]
    by (simp add: pow2_def nearest_ties_even_def)
  have d: "round_half_even (3514918771674317 / 2199023255552) = 1598"
    by (simp add: round_half_even_eq_iff nearest_ties_even_def)
  show ?thesis
    by (simp add: percent_of_def int_to_float_def a b c d)
qed

lemma percent_of_10000_20: "percent_of 10000 (Fin 20) = Inr 2000"
proof -
  have a: "rnd64 10000 = Fin 10000"
    using rnd64_pos_eqI [of "10000" "13" "pow2 (- 39)" 5497558138880000]
    by (simp add: pow2_def nearest_ties_even_def)
  have b: "rnd64 (1 / 5) = Fin (3602879701896397 / 18014398509481984)"
    using rnd64_pos_eqI [of "1 / 5" "- 3" "pow2 (- 55)" 7205759403792794]
    by (simp add: pow2_def nearest_ties_even_def)
  have c: "rnd64 (2251799813685248125 / 1125899906842624) = Fin 2000"
    using rnd64_pos_eqI [of "2251799813685248125 / 1125899906842624" "10" "pow2 (- 42)" 8796093022208000]
    by (simp add: pow2_def nearest_ties_even_def)
  have d: "round_half_even 2000 = 2000"
    by (simp add: round_half_even_eq_iff nearest_ties_even_def)
  show ?thesis
    by (simp add: percent_of_def int_to_float_def a b c d)
qed

lemma percent_of_10000_8: "percent_of 10000 (Fin 8) = Inr 800"
proof -
  have a: "rnd64 10000 = Fin 10000"
    using rnd64_pos_eqI [of "10000" "13" "pow2 (- 39)" 5497558138880000]
    by (simp add: pow2_def nearest_ties_even_def)
  have b: "rnd64 (2 / 25) = Fin (5764607523034235 / 72057594037927936)"
    using rnd64_pos_eqI [of "2 / 25" "- 4" "pow2 (- 56)" 5764607523034235]
    by (simp add: pow2_def nearest_ties_even_def)
  have c: "rnd64 (3602879701896396875 / 4503599627370496) = Fin 800"
    using rnd64_pos_eqI [of "3602879701896396875 / 4503599627370496" "9" "pow2 (- 43)" 7036874417766400]
    by (simp add: pow2_def nearest_ties_even_def)
  have d: "round_half_even 800 = 800"
    by (simp add: round_half_even_eq_iff nearest_ties_even_def)
  show ?thesis
    by (simp add: percent_of_def int_to_float_def a b c d)
qed



lemma percent_of_100_20: "percent_of 100 (Fin 20) = Inr 20"
proof -
  have a: "rnd64 100 = Fin 100"
    using rnd64_pos_eqI [of "100" "6" "pow2 (- 46)" 7036874417766400]
    by (simp add: pow2_def nearest_ties_even_def)
  have b: "rnd64 (1 / 5) = Fin (3602879701896397 / 18014398509481984)"
    using rnd64_pos_eqI [of "1 / 5" "- 3" "pow2 (- 55)" 7205759403792794]
    by (simp add: pow2_def nearest_ties_even_def)
  have c: "rnd64 (90071992547409925 / 4503599627370496) = Fin 20"
    using rnd64_pos_eqI [of "90071992547409925 / 4503599627370496" "4" "pow2 (- 48)" 5629499534213120]
    by (simp add: pow2_def nearest_ties_even_def)
  have d: "round_half_even 20 = 20"
    by (simp add: round_half_even_eq_iff nearest_ties_even_def)
  show ?thesis
    by (simp add: percent_of_def int_to_float_def a b c d)
qed

lemma percent_of_100_8: "percent_of 100 (Fin 8) = Inr 8"
proof -
  have a: "rnd64 100 = Fin 100"
    using rnd64_pos_eqI [of "100" "6" "pow2 (- 46)" 7036874417766400]
    by (simp add: pow2_def nearest_ties_even_def)
  have b: "rnd64 (2 / 25) = Fin (5764607523034235 / 72057594037927936)"
    using rnd64_pos_eqI [of "2 / 25" "- 4" "pow2 (- 56)" 5764607523034235]
    by (simp add: pow2_def nearest_ties_even_def)
  have c: "rnd64 (144115188075855875 / 18014398509481984) = Fin 8"
    using rnd64_pos_eqI [of "144115188075855875 / 18014398509481984" "3" "pow2 (- 49)" 4503599627370496]
    by (simp add: pow2_def nearest_ties_even_def)
  have d: "round_half_even 8 = 8"
    by (simp add: round_half_even_eq_iff nearest_ties_even_def)
  show ?thesis
    by (simp add: percent_of_def int_to_float_def a b c d)
qed

subsection \<open>The dashboard\<close>




















subsection \<open>The examples evaluated\<close>

lemma taxas_of_examples:
  "taxas_of default_config 19980 = Inr 5594"
  "taxas_of default_config 10000 = Inr 2800"
  "taxas_of default_config 100 = Inr 28"
  by (simp_all add: taxas_of_def default_config_def percent_of_19980_20 percent_of_19980_8
      percent_of_10000_20 percent_of_10000_8 percent_of_100_20 percent_of_100_8)

lemma month_bounds_examples:
  "month_bounds (2024, 5, 6) ''2024-05'' = Inr ((2024, 5, 1), (2024, 6, 1))"
  "month_bounds (2024, 5, 6) ''2024-12'' = Inr ((2024, 12, 1), (2025, 1, 1))"
  by (simp_all add: month_bounds_def py_int_def first_of_month_def bind_err_def string_simps)

lemma custo_examples:
  "custo_para_venda ex_db ex_venda = 3590"
  "custo_para_venda ex_db_prejuizo
     (ex_venda\<lparr>preco_unitario_cent := 100, v_quantidade := 1,
                custo_unitario_override_cent := Some 3590\<rparr>) = 3590"
  by code_simp+

lemma ex_fields:
  "vendas_tbl ex_db = [ex_venda]" "config_row ex_db = Some default_config"
  "v_data ex_venda = (2024, 5, 3)" "preco_unitario_cent ex_venda = 9990"
  "v_quantidade ex_venda = 2" "today ex_env = (2024, 5, 6)"
  "taxa_fixa_cent default_config = 400"
  "config_row ex_db_prejuizo = Some default_config"
  "vendas_tbl ex_db_prejuizo =
     [ex_venda\<lparr>preco_unitario_cent := 100, v_quantidade := 1,
                custo_unitario_override_cent := Some 3590\<rparr>]"
  by (simp_all add: ex_db_def ex_venda_def ex_env_def default_config_def ex_db_prejuizo_def)

lemmas dash_simps =
  dashboard_def ym_of_request_def ex_fields month_bounds_examples taxas_of_examples
  custo_examples get_config_def calc_taxas_def order_by_desc_def less_eq_prod_def
  less_prod_def painel_vazio_def Let_def ex_painel_def ex_linha_def


lemma dashboard_december: "dashboard ex_env (Some ''2024-12'') ex_db = (Inr painel_vazio, ex_db)"
  by (simp add: dash_simps)















end
